theory Spec2Isabelle
  imports Main "HOL-Library.Word" "HOL-Library.Stream" "HOL-Library.Sublist"
begin

unbundle bit_operations_syntax

section \<open>The rotary encoder driver of rotary\_i2c.py\<close>

text \<open>
  The driver is one Python class, \<^verbatim>\<open>RotaryI2C\<close>. Its attributes are Python integers
  (unbounded, hence \<^typ>\<open>int\<close>); buffers are \<^verbatim>\<open>bytearray\<close>s, hence lists of 8-bit words.
  A method may raise, and what it changed before raising stays changed, so every method
  is a function from the state before the call to a pair: the outcome (the exception
  raised, on the left, or the value returned, on the right) and the state after the call.
\<close>

subsection \<open>Data\<close>

type_synonym byte = "8 word"

text \<open>
  The exceptions that can reach a caller: the driver's own \<^verbatim>\<open>Exception(message)\<close>, the
  \<^verbatim>\<open>OSError\<close> of a bus transfer that nobody acknowledges, the error of \<^verbatim>\<open>unpack\<close> on a
  buffer of the wrong size and the \<^verbatim>\<open>IndexError\<close> of reading byte 0 of an empty buffer.
\<close>

datatype error = Exception string | OSError | StructError | IndexError

text \<open>The attributes of a \<^verbatim>\<open>RotaryI2C\<close> object, in the order \<^verbatim>\<open>__init__\<close> assigns them.
  The attribute \<^verbatim>\<open>i2c\<close> refers to the transport object, which belongs to the world below.\<close>

record RotaryI2C =
  pin_num_sda :: int
  pin_num_scl :: int
  freq :: int
  min_val :: int
  max_val :: int
  "value" :: int
  devno :: int

subsection \<open>The world outside the driver: the bus and the clock\<close>

text \<open>
  The transport (\<^verbatim>\<open>PimoroniI2C\<close>) and \<^verbatim>\<open>sleep_ms\<close> are not part of the repository. They are
  modelled by what a caller can observe of them. The world keeps, oldest first, every
  transport call and every delay (\<open>history\<close>), and for every bus address the bytes the
  peripheral at that address will deliver when it is read (\<open>peripheral\<close>); an address
  where no peripheral answers has none, and a transfer to it raises \<^verbatim>\<open>OSError\<close>.
\<close>

datatype event =
    WriteTo int "byte list"
  | SleepMs nat
  | ReadFromInto int nat

record world =
  history :: "event list"
  peripheral :: "int \<Rightarrow> byte stream option"

type_synonym state = "RotaryI2C \<times> world"

text \<open>\<^verbatim>\<open>i2c.writeto(addr, buf)\<close>: returns the number of bytes acknowledged.\<close>

definition writeto :: "int \<Rightarrow> byte list \<Rightarrow> world \<Rightarrow> (error + int) \<times> world" where
  "writeto addr buf w =
     (let w' = w\<lparr>history := history w @ [WriteTo addr buf]\<rparr>
      in case peripheral w addr of
           None \<Rightarrow> (Inl OSError, w')
         | Some bytes \<Rightarrow> (Inr (int (length buf)), w'))"

text \<open>\<^verbatim>\<open>i2c.readfrom_into(addr, buf)\<close>: fills the caller's buffer, whose size it cannot
  change, with the next bytes of the peripheral. The model returns the filled buffer.\<close>

definition readfrom_into :: "int \<Rightarrow> byte list \<Rightarrow> world \<Rightarrow> (error + byte list) \<times> world" where
  "readfrom_into addr buf w =
     (let w' = w\<lparr>history := history w @ [ReadFromInto addr (length buf)]\<rparr>
      in case peripheral w addr of
           None \<Rightarrow> (Inl OSError, w')
         | Some bytes \<Rightarrow>
             (Inr (stake (length buf) bytes),
              w'\<lparr>peripheral := (peripheral w)(addr \<mapsto> sdrop (length buf) bytes)\<rparr>))"

text \<open>\<^verbatim>\<open>sleep_ms(ms)\<close>.\<close>

definition sleep_ms :: "nat \<Rightarrow> world \<Rightarrow> world" where
  "sleep_ms ms w = w\<lparr>history := history w @ [SleepMs ms]\<rparr>"

text \<open>\<^verbatim>\<open>bytearray(n)\<close>: a new buffer of \<open>n\<close> zero bytes.\<close>

definition bytearray :: "nat \<Rightarrow> byte list" where
  "bytearray n = replicate n 0"

text \<open>
  \<^verbatim>\<open>unpack(">l", buf)[0]\<close>: the four bytes, most significant first, as a number below
  \<open>2 ^ 32\<close>, read as negative from \<open>2 ^ 31\<close> on. Any other buffer size is an error.
\<close>

fun unpack :: "byte list \<Rightarrow> error + int" where
  "unpack [b0, b1, b2, b3] =
     (let u = ((uint b0 * 256 + uint b1) * 256 + uint b2) * 256 + uint b3
      in Inr (if u < 2 ^ 31 then u else u - 2 ^ 32))"
| "unpack buf = Inl StructError"

subsection \<open>The driver\<close>

definition CMD_READ_VAL_POS :: byte where "CMD_READ_VAL_POS = 0x11"
definition CMD_READ_BUTTONS :: byte where "CMD_READ_BUTTONS = 0x01"
definition CMD_READ_NUMBER :: byte where "CMD_READ_NUMBER = 0x04"
definition VAL_POSITION :: byte where "VAL_POSITION = 0x30"
definition VAL_DELTA :: byte where "VAL_DELTA = 0x40"

text \<open>\<^verbatim>\<open>__init__(pin_num_sda, pin_num_scl, freq, min_val, max_val, devno)\<close>.\<close>

definition init :: "int \<Rightarrow> int \<Rightarrow> int \<Rightarrow> int \<Rightarrow> int \<Rightarrow> int \<Rightarrow> RotaryI2C" where
  "init sda scl f mn mx dev =
     \<lparr>pin_num_sda = sda, pin_num_scl = scl, freq = f,
      min_val = mn, max_val = mx, value = mn, devno = dev\<rparr>"

definition set_device :: "int \<Rightarrow> state \<Rightarrow> state" where
  "set_device dev st = (case st of (self, w) \<Rightarrow> (self\<lparr>devno := dev\<rparr>, w))"

text \<open>The message of the exception raised when no device number has been set.\<close>

definition no_device_message :: string where
  "no_device_message =
     ''ERROR [rotary_i2c.i2c_write()] : No target device number has been set - I don't know where to send it!''"

definition i2c_write :: "byte list \<Rightarrow> state \<Rightarrow> (error + int) \<times> state" where
  "i2c_write cdata st =
     (case st of (self, w) \<Rightarrow>
        if devno self = 0 then (Inl (Exception no_device_message), (self, w))
        else
          (let clen = length cdata
           in case writeto (devno self) cdata w of
                (Inl e, w') \<Rightarrow> (Inl e, (self, w'))
              | (Inr nsent, w') \<Rightarrow> (Inr nsent, (self, w'))))"

definition i2c_read :: "byte list \<Rightarrow> nat \<Rightarrow> state \<Rightarrow> (error + byte list) \<times> state" where
  "i2c_read cdata dsize st =
     (case i2c_write cdata st of
        (Inl e, st') \<Rightarrow> (Inl e, st')
      | (Inr nsent, (self, w)) \<Rightarrow>
          (let w1 = sleep_ms 8 w;
               reply = bytearray dsize
           in case readfrom_into (devno self) reply w1 of
                (Inl e, w2) \<Rightarrow> (Inl e, (self, w2))
              | (Inr reply', w2) \<Rightarrow> (Inr reply', (self, w2))))"

definition position :: "state \<Rightarrow> (error + int) \<times> state" where
  "position st =
     (let cdata = [CMD_READ_VAL_POS, VAL_DELTA]
      in case i2c_read cdata 4 st of
           (Inl e, st') \<Rightarrow> (Inl e, st')
         | (Inr reply, (self, w)) \<Rightarrow>
             (case unpack reply of
                Inl e \<Rightarrow> (Inl e, (self, w))
              | Inr delta \<Rightarrow>
                  (let self1 = self\<lparr>value := value self - delta\<rparr>;
                       self2 =
                         (if value self1 < min_val self1 then self1\<lparr>value := max_val self1\<rparr>
                          else if value self1 > max_val self1 then self1\<lparr>value := min_val self1\<rparr>
                          else self1)
                   in (Inr (value self2), (self2, w)))))"

definition button :: "state \<Rightarrow> (error + bool) \<times> state" where
  "button st =
     (let rv = False;
          cdata = [CMD_READ_BUTTONS, CMD_READ_NUMBER]
      in case i2c_read cdata 4 st of
           (Inl e, st') \<Rightarrow> (Inl e, st')
         | (Inr reply, st') \<Rightarrow>
             (case reply of
                [] \<Rightarrow> (Inl IndexError, st')
              | byte0 # bytes \<Rightarrow> (Inr (if byte0 AND 0x01 = 0 then True else rv), st')))"

subsection \<open>A bus with one peripheral\<close>

text \<open>The world before any bus activity, with a single peripheral at address \<open>addr\<close>
  that will deliver \<open>bytes\<close>.\<close>

definition single_peripheral :: "int \<Rightarrow> byte stream \<Rightarrow> world" where
  "single_peripheral addr bytes =
     \<lparr>history = [], peripheral = (\<lambda>a. if a = addr then Some bytes else None)\<rparr>"

section \<open>How a call runs\<close>

lemma i2c_write_unset:
  "devno self = 0 \<Longrightarrow>
     i2c_write cdata (self, w) = (Inl (Exception no_device_message), (self, w))"
  by (simp add: i2c_write_def)

lemma i2c_read_unset:
  "devno self = 0 \<Longrightarrow>
     i2c_read cdata dsize (self, w) = (Inl (Exception no_device_message), (self, w))"
  by (simp add: i2c_read_def i2c_write_unset)

lemma i2c_write_answered:
  "devno self \<noteq> 0 \<Longrightarrow> peripheral w (devno self) = Some bytes \<Longrightarrow>
     i2c_write cdata (self, w) =
       (Inr (int (length cdata)),
        (self, w\<lparr>history := history w @ [WriteTo (devno self) cdata]\<rparr>))"
  by (simp add: i2c_write_def writeto_def)

lemma i2c_read_answered:
  "devno self \<noteq> 0 \<Longrightarrow> peripheral w (devno self) = Some bytes \<Longrightarrow>
     i2c_read cdata dsize (self, w) =
       (Inr (stake dsize bytes),
        (self, w\<lparr>history := history w @
                     [WriteTo (devno self) cdata, SleepMs 8, ReadFromInto (devno self) dsize],
                   peripheral := (peripheral w)(devno self \<mapsto> sdrop dsize bytes)\<rparr>))"
  by (simp add: i2c_read_def i2c_write_answered sleep_ms_def readfrom_into_def bytearray_def)

lemma button_answered:
  assumes "devno self \<noteq> 0" and "peripheral w (devno self) = Some (b0 ## rest)"
  shows "button (self, w) =
    (Inr (b0 AND 1 = 0),
     (self,
      w\<lparr>history := history w @
           [WriteTo (devno self) [0x01, 0x04], SleepMs 8, ReadFromInto (devno self) 4],
        peripheral := (peripheral w)(devno self \<mapsto> sdrop 4 (b0 ## rest))\<rparr>))"
  using assms
  by (simp add: button_def i2c_read_answered CMD_READ_BUTTONS_def CMD_READ_NUMBER_def
      Let_def eval_nat_numeral)

lemma position_answered:
  assumes "devno self \<noteq> 0" and "peripheral w (devno self) = Some bytes"
    and "unpack (stake 4 bytes) = Inr delta"
  shows "position (self, w) =
    (Inr (if value self - delta < min_val self then max_val self
          else if value self - delta > max_val self then min_val self
          else value self - delta),
     (self\<lparr>value :=
          (if value self - delta < min_val self then max_val self
           else if value self - delta > max_val self then min_val self
           else value self - delta)\<rparr>,
      w\<lparr>history := history w @
           [WriteTo (devno self) [0x11, 0x40], SleepMs 8, ReadFromInto (devno self) 4],
        peripheral := (peripheral w)(devno self \<mapsto> sdrop 4 bytes)\<rparr>))"
  using assms
  by (simp add: position_def i2c_read_answered CMD_READ_VAL_POS_def VAL_DELTA_def Let_def)

subsection \<open>The message of the guard\<close>

lemma message_names_i2c_write: "sublist ''i2c_write'' no_device_message"
  by code_simp

lemma message_omits_read: "\<not> sublist ''read'' no_device_message"
  by code_simp

subsection \<open>Decoding the reply\<close>

lemma stake_4: "stake 4 (b0 ## b1 ## b2 ## b3 ## rest) = [b0, b1, b2, b3]"
  by (simp add: eval_nat_numeral)

lemma sdrop_4: "sdrop 4 (b0 ## b1 ## b2 ## b3 ## rest) = rest"
  by (simp add: eval_nat_numeral)

lemma signed_read_32:
  fixes u :: int
  assumes "0 \<le> u" "u < 2 ^ 32"
  shows "sint (word_of_int u :: 32 word) = (if u < 2 ^ 31 then u else u - 2 ^ 32)"
proof (cases "u < 2 ^ 31")
  case True
  then have "signed_take_bit 31 u = u"
    using assms by (simp add: signed_take_bit_int_eq_self)
  with True show ?thesis by (simp add: sint_sbintrunc')
next
  case False
  have "take_bit (Suc 31) (u - 2 ^ 32) = take_bit (Suc 31) u"
    by (simp add: take_bit_eq_mod)
  then have "signed_take_bit 31 u = signed_take_bit 31 (u - 2 ^ 32)"
    by (simp only: signed_take_bit_eq_iff_take_bit_eq)
  also have "\<dots> = u - 2 ^ 32"
    using assms False by (simp add: signed_take_bit_int_eq_self)
  finally show ?thesis using False by (simp add: sint_sbintrunc')
qed

lemma unpack_sint:
  "unpack [b0, b1, b2, b3] = Inr (sint (word_rcat [b0, b1, b2, b3] :: 32 word))"
proof -
  define u where "u = ((uint b0 * 256 + uint b1) * 256 + uint b2) * 256 + uint b3"
  have b: "0 \<le> uint b0" "uint b0 < 256" "0 \<le> uint b1" "uint b1 < 256"
          "0 \<le> uint b2" "uint b2 < 256" "0 \<le> uint b3" "uint b3 < 256"
    using uint_bounded [of b0] uint_bounded [of b1] uint_bounded [of b2] uint_bounded [of b3]
    by simp_all
  have range: "0 \<le> u" "u < 2 ^ 32"
    using b by (simp_all add: u_def)
  have cat: "(word_rcat [b0, b1, b2, b3] :: 32 word) = word_of_int u"
    by (simp add: word_rcat_def u_def algebra_simps)
  show ?thesis
    unfolding cat signed_read_32 [OF range] by (simp add: u_def Let_def)
qed

lemma unpack_stake_4:
  fixes bytes :: "byte stream"
  shows "unpack (stake 4 bytes) = Inr (sint (word_rcat (stake 4 bytes) :: 32 word))"
proof -
  have "\<exists>b0 b1 b2 b3. stake 4 bytes = [b0, b1, b2, b3]"
    by (simp add: eval_nat_numeral)
  then obtain b0 b1 b2 b3 where "stake 4 bytes = [b0, b1, b2, b3]"
    by blast
  then show ?thesis by (simp only: unpack_sint)
qed

section \<open>The position counter\<close>

text \<open>
  C1, as the code has it. Let \<open>delta\<close> be the decoded reply of a \<^verbatim>\<open>position()\<close> call that
  returns. If \<open>value - delta < min_val\<close>, the value returned and stored is \<open>max_val\<close>
  exactly. If \<open>value - delta > max_val\<close> and \<open>value - delta\<close> is not below \<open>min_val\<close> (which
  is so whenever \<open>min_val \<le> max_val\<close>), the value returned and stored is \<open>min_val\<close> exactly.
  Both are jumps to the opposite bound, however far the result overshoots; the test
  against \<open>min_val\<close> comes first.
\<close>

theorem position_jumps_to_opposite_bound:
  assumes "devno self \<noteq> 0"
    and "peripheral w (devno self) = Some bytes"
    and "unpack (stake 4 bytes) = Inr delta"
    and "position (self, w) = (r, (self', w'))"
  shows "(value self - delta < min_val self \<longrightarrow>
            r = Inr (max_val self) \<and> value self' = max_val self) \<and>
         (min_val self \<le> value self - delta \<and> max_val self < value self - delta \<longrightarrow>
            r = Inr (min_val self) \<and> value self' = min_val self) \<and>
         (min_val self \<le> max_val self \<and> max_val self < value self - delta \<longrightarrow>
            r = Inr (min_val self) \<and> value self' = min_val self)"
  using assms(4) unfolding position_answered [OF assms(1-3)] by auto

text \<open>An underflow (0 - 5 with bounds 0 and 10) and an overflow (3 + 8 with bounds 3 and 10).\<close>

theorem position_jumps_to_opposite_bound_witness:
  "fst (position (init 16 17 400000 0 10 54,
                  single_peripheral 54 (0 ## 0 ## 0 ## 5 ## sconst 0))) = Inr 10 \<and>
   fst (position (init 16 17 400000 3 10 54,
                  single_peripheral 54 (0xFF ## 0xFF ## 0xFF ## 0xF8 ## sconst 0))) = Inr 3"
proof -
  let ?under = "0 ## 0 ## 0 ## 5 ## sconst (0 :: byte)"
  let ?over = "0xFF ## 0xFF ## 0xFF ## 0xF8 ## sconst (0 :: byte)"
  have dev: "devno (init 16 17 400000 mn 10 54) \<noteq> 0" for mn
    by (simp add: init_def)
  have answers: "peripheral (single_peripheral 54 bytes) (devno (init 16 17 400000 mn 10 54)) = Some bytes"
    for bytes mn
    by (simp add: init_def single_peripheral_def)
  have under: "unpack (stake 4 ?under) = Inr 5"
    and over: "unpack (stake 4 ?over) = Inr (- 8)"
    by (simp_all add: stake_4)
  have run: "position st = (fst (position st), (fst (snd (position st)), snd (snd (position st))))"
    for st by simp
  from position_jumps_to_opposite_bound [OF dev answers under run]
  have "fst (position (init 16 17 400000 0 10 54, single_peripheral 54 ?under)) = Inr 10"
    by (simp add: init_def)
  moreover from position_jumps_to_opposite_bound [OF dev answers over run]
  have "fst (position (init 16 17 400000 3 10 54, single_peripheral 54 ?over)) = Inr 3"
    by (simp add: init_def)
  ultimately show ?thesis by simp
qed

text \<open>
  With \<open>min_val = 10\<close> and \<open>max_val = 0\<close>, which the constructor accepts, the counter
  starts at 10; a delta of 5 gives 5, which is above \<open>max_val\<close> and below \<open>min_val\<close>: the
  call returns \<open>max_val = 0\<close>, not \<open>min_val = 10\<close>.
\<close>

theorem position_overflow_counterexample:
  "value (init 16 17 400000 10 0 54) - 5 > max_val (init 16 17 400000 10 0 54) \<and>
   unpack [0, 0, 0, 5] = Inr 5 \<and>
   min_val (init 16 17 400000 10 0 54) = 10 \<and>
   fst (position (init 16 17 400000 10 0 54,
                  single_peripheral 54 (0 ## 0 ## 0 ## 5 ## sconst 0))) = Inr 0"
  by (simp add: init_def single_peripheral_def position_answered stake_4)

text \<open>
  C2. A \<^verbatim>\<open>position()\<close> call that the peripheral answers writes the command bytes
  \<open>[0x11, 0x40]\<close>, waits, and reads a reply of 4 bytes. Whatever the four bytes are,
  \<^verbatim>\<open>unpack\<close> decodes them as the two's-complement signed reading of the 32-bit word that
  has them most significant byte first (\<open>0xFF, 0xFF, 0xFF, 0xFE\<close> is -2), and the call
  subtracts that delta from the stored value before it applies the bounds, and returns
  the stored value.
\<close>

theorem position_decodes_and_subtracts:
  assumes "devno self \<noteq> 0"
    and "peripheral w (devno self) = Some (b0 ## b1 ## b2 ## b3 ## rest)"
    and "position (self, w) = (r, (self', w'))"
  shows "let delta = sint (word_rcat [b0, b1, b2, b3] :: 32 word);
             v = value self - delta
         in history w' = history w @
              [WriteTo (devno self) [0x11, 0x40], SleepMs 8, ReadFromInto (devno self) 4] \<and>
            unpack [b0, b1, b2, b3] = Inr delta \<and>
            r = Inr (value self') \<and>
            value self' =
              (if v < min_val self then max_val self
               else if v > max_val self then min_val self
               else v) \<and>
            unpack [0xFF, 0xFF, 0xFF, 0xFE] = Inr (- 2)"
proof -
  define delta where "delta = sint (word_rcat [b0, b1, b2, b3] :: 32 word)"
  have decode: "unpack [b0, b1, b2, b3] = Inr delta"
    unfolding delta_def by (rule unpack_sint)
  then have "unpack (stake 4 (b0 ## b1 ## b2 ## b3 ## rest)) = Inr delta"
    by (simp only: stake_4)
  from assms(3) [unfolded position_answered [OF assms(1,2) this]]
  have "history w' = history w @
          [WriteTo (devno self) [0x11, 0x40], SleepMs 8, ReadFromInto (devno self) 4]"
    and "r = Inr (value self')"
    and "value self' =
          (if value self - delta < min_val self then max_val self
           else if value self - delta > max_val self then min_val self
           else value self - delta)"
    by auto
  moreover have "unpack [0xFF, 0xFF, 0xFF, 0xFE] = Inr (- 2)"
    by simp
  ultimately show ?thesis
    using decode unfolding delta_def [symmetric] Let_def by blast
qed

text \<open>The reply \<open>0xFF, 0xFF, 0xFF, 0xFE\<close> takes the counter from 0 to 2: the delta -2 is
  subtracted, not added.\<close>

theorem position_decodes_and_subtracts_witness:
  "fst (position (init 16 17 400000 0 10 54,
                  single_peripheral 54 (0xFF ## 0xFF ## 0xFF ## 0xFE ## sconst 0))) = Inr 2 \<and>
   value (fst (snd (position (init 16 17 400000 0 10 54,
                  single_peripheral 54 (0xFF ## 0xFF ## 0xFF ## 0xFE ## sconst 0))))) = 2 \<and>
   history (snd (snd (position (init 16 17 400000 0 10 54,
                  single_peripheral 54 (0xFF ## 0xFF ## 0xFF ## 0xFE ## sconst 0))))) =
     [WriteTo 54 [0x11, 0x40], SleepMs 8, ReadFromInto 54 4]"
proof -
  let ?self = "init 16 17 400000 0 10 54"
  let ?bytes = "0xFF ## 0xFF ## 0xFF ## 0xFE ## sconst (0 :: byte)"
  let ?w = "single_peripheral 54 ?bytes"
  have dev: "devno ?self \<noteq> 0"
    by (simp add: init_def)
  have answers: "peripheral ?w (devno ?self) = Some ?bytes"
    by (simp add: init_def single_peripheral_def)
  have run: "position st = (fst (position st), (fst (snd (position st)), snd (snd (position st))))"
    for st by simp
  have minus_two: "sint (word_rcat [0xFF, 0xFF, 0xFF, 0xFE :: byte] :: 32 word) = - 2"
    by (simp add: word_rcat_def)
  from position_decodes_and_subtracts [OF dev answers run]
  show ?thesis
    by (simp add: Let_def minus_two init_def single_peripheral_def)
qed

text \<open>
  C3. When \<open>min_val \<le> value - delta \<le> max_val\<close>, a \<^verbatim>\<open>position()\<close> call that returns
  stores and returns \<open>value - delta\<close> itself. The case includes a result equal to \<open>min_val\<close>
  or to \<open>max_val\<close>, which is not moved to the opposite bound.
\<close>

theorem position_in_range_unchanged:
  assumes "devno self \<noteq> 0"
    and "peripheral w (devno self) = Some bytes"
    and "unpack (stake 4 bytes) = Inr delta"
    and "min_val self \<le> value self - delta"
    and "value self - delta \<le> max_val self"
    and "position (self, w) = (r, (self', w'))"
  shows "r = Inr (value self - delta) \<and> value self' = value self - delta"
  using assms(6) assms(4,5) unfolding position_answered [OF assms(1-3)] by auto

text \<open>From 5 with bounds 0 and 10: a delta of -5 gives exactly \<open>max_val\<close>, a delta of 5
  exactly \<open>min_val\<close>, and both are returned as they are.\<close>

theorem position_in_range_unchanged_witness:
  "fst (position ((init 16 17 400000 0 10 54)\<lparr>value := 5\<rparr>,
                  single_peripheral 54 (0xFF ## 0xFF ## 0xFF ## 0xFB ## sconst 0))) = Inr 10 \<and>
   fst (position ((init 16 17 400000 0 10 54)\<lparr>value := 5\<rparr>,
                  single_peripheral 54 (0 ## 0 ## 0 ## 5 ## sconst 0))) = Inr 0"
proof -
  let ?self = "(init 16 17 400000 0 10 54)\<lparr>value := 5\<rparr>"
  let ?up = "0xFF ## 0xFF ## 0xFF ## 0xFB ## sconst (0 :: byte)"
  let ?down = "0 ## 0 ## 0 ## 5 ## sconst (0 :: byte)"
  have dev: "devno ?self \<noteq> 0"
    by (simp add: init_def)
  have answers: "peripheral (single_peripheral 54 bytes) (devno ?self) = Some bytes" for bytes
    by (simp add: init_def single_peripheral_def)
  have up: "unpack (stake 4 ?up) = Inr (- 5)" and down: "unpack (stake 4 ?down) = Inr 5"
    by (simp_all add: stake_4)
  have bounds: "min_val ?self \<le> value ?self - (- 5)" "value ?self - (- 5) \<le> max_val ?self"
    "min_val ?self \<le> value ?self - 5" "value ?self - 5 \<le> max_val ?self"
    by (simp_all add: init_def)
  have run: "position st = (fst (position st), (fst (snd (position st)), snd (snd (position st))))"
    for st by simp
  from position_in_range_unchanged [OF dev answers up bounds(1,2) run]
    position_in_range_unchanged [OF dev answers down bounds(3,4) run]
  show ?thesis
    by (simp add: init_def)
qed

text \<open>
  C4, as the code has it. When \<open>min_val \<le> max_val\<close>, right after a \<^verbatim>\<open>position()\<close> call that
  returns, whatever the state before and whatever the reply, the stored value lies in
  the closed interval from \<open>min_val\<close> to \<open>max_val\<close>, and it is the value returned.
\<close>

theorem position_value_within_bounds:
  assumes "devno self \<noteq> 0"
    and "peripheral w (devno self) = Some bytes"
    and "min_val self \<le> max_val self"
    and "position (self, w) = (r, (self', w'))"
  shows "r = Inr (value self') \<and> min_val self' \<le> value self' \<and> value self' \<le> max_val self'"
proof -
  from assms(4) [unfolded position_answered [OF assms(1,2) unpack_stake_4]] assms(3)
  show ?thesis by auto
qed

theorem position_value_within_bounds_witness:
  "min_val (fst (snd (position (init 16 17 400000 0 10 54,
       single_peripheral 54 (0 ## 0 ## 0 ## 5 ## sconst 0)))))
   \<le> value (fst (snd (position (init 16 17 400000 0 10 54,
       single_peripheral 54 (0 ## 0 ## 0 ## 5 ## sconst 0))))) \<and>
   value (fst (snd (position (init 16 17 400000 0 10 54,
       single_peripheral 54 (0 ## 0 ## 0 ## 5 ## sconst 0)))))
   \<le> max_val (fst (snd (position (init 16 17 400000 0 10 54,
       single_peripheral 54 (0 ## 0 ## 0 ## 5 ## sconst 0)))))"
proof -
  let ?self = "init 16 17 400000 0 10 54"
  let ?bytes = "0 ## 0 ## 0 ## 5 ## sconst (0 :: byte)"
  have dev: "devno ?self \<noteq> 0" and ordered: "min_val ?self \<le> max_val ?self"
    by (simp_all add: init_def)
  have answers: "peripheral (single_peripheral 54 ?bytes) (devno ?self) = Some ?bytes"
    by (simp add: init_def single_peripheral_def)
  have run: "position st = (fst (position st), (fst (snd (position st)), snd (snd (position st))))"
    for st by simp
  from position_value_within_bounds [OF dev answers ordered run]
  show ?thesis by simp
qed

text \<open>
  The constructor accepts \<open>min_val = 10\<close> and \<open>max_val = 0\<close>. The counter then starts at
  10, and after a delta of 5 the stored value is 0, which is below \<open>min_val\<close>.
\<close>

theorem position_bounds_counterexample:
  "position (init 16 17 400000 10 0 54, single_peripheral 54 (0 ## 0 ## 0 ## 5 ## sconst 0)) =
     (Inr 0,
      (\<lparr>pin_num_sda = 16, pin_num_scl = 17, freq = 400000,
        min_val = 10, max_val = 0, value = 0, devno = 54\<rparr>,
       \<lparr>history = [WriteTo 54 [0x11, 0x40], SleepMs 8, ReadFromInto 54 4],
        peripheral = (\<lambda>a. if a = 54 then Some (sconst 0) else None)\<rparr>)) \<and>
   \<not> (10 \<le> (0 :: int) \<and> (0 :: int) \<le> 0)"
  by (simp add: init_def single_peripheral_def position_answered stake_4 sdrop_4 fun_eq_iff)

section \<open>Transactions\<close>

text \<open>
  C5, as the code has it. Whatever the bytes, \<^verbatim>\<open>i2c_write\<close> and \<^verbatim>\<open>i2c_read\<close> called while
  \<open>devno\<close> is 0 raise the configuration error and leave the world as it was: nothing is
  written to the bus, no delay occurs and no read is issued. The message is the same in
  both cases and names \<^verbatim>\<open>i2c_write\<close>, where the guard is; \<^verbatim>\<open>i2c_read\<close> has no guard of its
  own and raises through its call of \<^verbatim>\<open>i2c_write\<close>.
\<close>

theorem unset_device_raises_before_bus:
  assumes "devno self = 0"
  shows "fst (i2c_write cdata (self, w)) = Inl (Exception no_device_message) \<and>
         snd (snd (i2c_write cdata (self, w))) = w \<and>
         fst (i2c_read cdata dsize (self, w)) = Inl (Exception no_device_message) \<and>
         snd (snd (i2c_read cdata dsize (self, w))) = w \<and>
         sublist ''i2c_write'' no_device_message"
  using assms by (simp add: i2c_write_unset i2c_read_unset message_names_i2c_write)

theorem unset_device_raises_before_bus_witness:
  "fst (i2c_write [0x11, 0x40] (init 16 17 400000 0 10 0, single_peripheral 54 (sconst 0))) =
     Inl (Exception no_device_message) \<and>
   history (snd (snd (i2c_write [0x11, 0x40]
     (init 16 17 400000 0 10 0, single_peripheral 54 (sconst 0))))) = [] \<and>
   fst (i2c_read [0x11, 0x40] 4 (init 16 17 400000 0 10 0, single_peripheral 54 (sconst 0))) =
     Inl (Exception no_device_message) \<and>
   history (snd (snd (i2c_read [0x11, 0x40] 4
     (init 16 17 400000 0 10 0, single_peripheral 54 (sconst 0))))) = []"
proof -
  have unset: "devno (init 16 17 400000 0 10 0) = 0"
    by (simp add: init_def)
  from unset_device_raises_before_bus [OF unset]
  show ?thesis
    by (simp add: single_peripheral_def)
qed

text \<open>The error that \<^verbatim>\<open>i2c_read\<close> raises does not name the read operation: the word
  ``read'' occurs nowhere in its message.\<close>

theorem i2c_read_message_counterexample:
  "fst (i2c_read [0x11, 0x40] 4 (init 16 17 400000 0 10 0, single_peripheral 54 (sconst 0))) =
     Inl (Exception no_device_message) \<and>
   \<not> sublist ''read'' no_device_message"
  by (simp add: i2c_read_unset init_def message_omits_read)

text \<open>
  C7. Whatever the command bytes and the reply size, an \<^verbatim>\<open>i2c_read\<close> to a device that is
  set and answers adds to the history exactly a write of the command bytes to \<open>devno\<close>,
  then a delay of 8 milliseconds, then a read of \<open>dsize\<close> bytes from \<open>devno\<close>, and returns
  the buffer read, whose length is \<open>dsize\<close>.
\<close>

theorem i2c_read_transaction:
  assumes "devno self \<noteq> 0"
    and "peripheral w (devno self) = Some bytes"
    and "i2c_read cdata dsize (self, w) = (r, (self', w'))"
  shows "r = Inr (stake dsize bytes) \<and>
         length (stake dsize bytes) = dsize \<and>
         history w' = history w @
           [WriteTo (devno self) cdata, SleepMs 8, ReadFromInto (devno self) dsize]"
  using assms(3) unfolding i2c_read_answered [OF assms(1,2)] by auto

theorem i2c_read_transaction_witness:
  "fst (i2c_read [0x01, 0x04] 2
         (init 16 17 400000 0 10 54, single_peripheral 54 (7 ## 9 ## sconst 0))) = Inr [7, 9] \<and>
   history (snd (snd (i2c_read [0x01, 0x04] 2
         (init 16 17 400000 0 10 54, single_peripheral 54 (7 ## 9 ## sconst 0))))) =
     [WriteTo 54 [0x01, 0x04], SleepMs 8, ReadFromInto 54 2]"
proof -
  let ?self = "init 16 17 400000 0 10 54"
  let ?w = "single_peripheral 54 (7 ## 9 ## sconst (0 :: byte))"
  have dev: "devno ?self \<noteq> 0"
    by (simp add: init_def)
  have answers: "peripheral ?w (devno ?self) = Some (7 ## 9 ## sconst 0)"
    by (simp add: init_def single_peripheral_def)
  have run: "i2c_read c n st =
      (fst (i2c_read c n st), (fst (snd (i2c_read c n st)), snd (snd (i2c_read c n st))))"
    for c n st by simp
  have two: "stake 2 (7 ## 9 ## sconst (0 :: byte)) = [7, 9]"
    by (simp add: eval_nat_numeral)
  from i2c_read_transaction [OF dev answers run]
  show ?thesis
    by (simp add: two init_def single_peripheral_def)
qed

section \<open>The button\<close>

text \<open>
  C6. A \<^verbatim>\<open>button()\<close> call that the peripheral answers writes the command bytes
  \<open>[0x01, 0x04]\<close>, waits, reads a reply of 4 bytes, and returns true exactly when bit 0 of
  reply byte 0 is clear. The result is the same whatever bytes 1 to 3 and the other bits
  of byte 0 are.
\<close>

theorem button_reads_bit_0:
  assumes "devno self \<noteq> 0"
    and "peripheral w (devno self) = Some (b0 ## b1 ## b2 ## b3 ## rest)"
    and "button (self, w) = (r, (self', w'))"
  shows "r = Inr (b0 AND 0x01 = 0) \<and>
         (b0 AND 0x01 = 0) = (\<not> bit b0 0) \<and>
         history w' = history w @
           [WriteTo (devno self) [0x01, 0x04], SleepMs 8, ReadFromInto (devno self) 4]"
proof -
  have "(b0 AND 1 = 0) = (\<not> bit b0 0)"
    by (simp add: and_one_eq bit_0 mod_2_eq_odd)
  with assms(3) [unfolded button_answered [OF assms(1,2)]]
  show ?thesis by auto
qed

text \<open>Byte 0 = \<open>0xFE\<close> is pressed, whatever follows; \<open>0x01\<close> is not pressed; \<open>0x00\<close> is
  pressed.\<close>

theorem button_reads_bit_0_witness:
  "fst (button (init 16 17 400000 0 10 54,
                single_peripheral 54 (0xFE ## 0xFF ## 0xFF ## 0xFF ## sconst 0))) = Inr True \<and>
   fst (button (init 16 17 400000 0 10 54,
                single_peripheral 54 (0x01 ## 0 ## 0 ## 0 ## sconst 0))) = Inr False \<and>
   fst (button (init 16 17 400000 0 10 54,
                single_peripheral 54 (0x00 ## 0 ## 0 ## 0 ## sconst 0))) = Inr True"
proof -
  have dev: "devno (init 16 17 400000 0 10 54) \<noteq> 0"
    by (simp add: init_def)
  have answers:
    "peripheral (single_peripheral 54 bytes) (devno (init 16 17 400000 0 10 54)) = Some bytes"
    for bytes
    by (simp add: init_def single_peripheral_def)
  have run: "button st = (fst (button st), (fst (snd (button st)), snd (snd (button st))))"
    for st by simp
  from button_reads_bit_0 [OF dev answers run, of "0xFE" "0xFF" "0xFF" "0xFF" "sconst 0"]
    button_reads_bit_0 [OF dev answers run, of "0x01" 0 0 0 "sconst 0"]
    button_reads_bit_0 [OF dev answers run, of "0x00" 0 0 0 "sconst 0"]
  show ?thesis
    by simp
qed

section \<open>Two reads in a row\<close>

text \<open>
  C8. From \<open>value = 0\<close>, \<open>min_val = 0\<close>, \<open>max_val = 10\<close>, two \<^verbatim>\<open>position()\<close> calls in a row
  whose replies decode to 5 and then to 8 return 10 (0 - 5 is below \<open>min_val\<close>, so the
  counter jumps to \<open>max_val\<close>) and then 2 (10 - 8, within the bounds).
\<close>

theorem two_reads_scenario:
  assumes "devno self \<noteq> 0"
    and "value self = 0" and "min_val self = 0" and "max_val self = 10"
    and "peripheral w (devno self) = Some (0 ## 0 ## 0 ## 5 ## 0 ## 0 ## 0 ## 8 ## rest)"
    and "position (self, w) = (r1, st1)"
    and "position st1 = (r2, st2)"
  shows "unpack [0, 0, 0, 5] = Inr 5 \<and> unpack [0, 0, 0, 8] = Inr 8 \<and>
         r1 = Inr 10 \<and> value (fst st1) = 10 \<and>
         r2 = Inr 2 \<and> value (fst st2) = 2"
proof -
  let ?bytes = "0 ## 0 ## 0 ## 5 ## 0 ## 0 ## 0 ## 8 ## rest"
  let ?self1 = "self\<lparr>value := 10\<rparr>"
  let ?w1 = "w\<lparr>history := history w @
                 [WriteTo (devno self) [0x11, 0x40], SleepMs 8, ReadFromInto (devno self) 4],
               peripheral := (peripheral w)(devno self \<mapsto> 0 ## 0 ## 0 ## 8 ## rest)\<rparr>"
  have five: "unpack (stake 4 ?bytes) = Inr 5"
    by (simp add: stake_4)
  have first: "position (self, w) = (Inr 10, (?self1, ?w1))"
    using assms(2-4) by (simp add: position_answered [OF assms(1,5) five] sdrop_4)
  have dev1: "devno ?self1 \<noteq> 0"
    using assms(1) by simp
  have answers1: "peripheral ?w1 (devno ?self1) = Some (0 ## 0 ## 0 ## 8 ## rest)"
    by simp
  have eight: "unpack (stake 4 (0 ## 0 ## 0 ## 8 ## rest)) = Inr 8"
    by (simp add: stake_4)
  have second: "fst (position (?self1, ?w1)) = Inr 2"
    "value (fst (snd (position (?self1, ?w1)))) = 2"
    using assms(3,4) by (simp_all add: position_answered [OF dev1 answers1 eight])
  from assms(6) first have st1: "r1 = Inr 10" "st1 = (?self1, ?w1)"
    by simp_all
  with assms(7) second have "r2 = Inr 2" "value (fst st2) = 2"
    by auto
  with st1 show ?thesis by simp
qed

theorem two_reads_scenario_witness:
  "fst (position (init 16 17 400000 0 10 54,
         single_peripheral 54 (0 ## 0 ## 0 ## 5 ## 0 ## 0 ## 0 ## 8 ## sconst 0))) = Inr 10 \<and>
   fst (position (snd (position (init 16 17 400000 0 10 54,
         single_peripheral 54 (0 ## 0 ## 0 ## 5 ## 0 ## 0 ## 0 ## 8 ## sconst 0))))) = Inr 2"
proof -
  let ?self = "init 16 17 400000 0 10 54"
  let ?bytes = "0 ## 0 ## 0 ## 5 ## 0 ## 0 ## 0 ## 8 ## sconst (0 :: byte)"
  have dev: "devno ?self \<noteq> 0"
    and start: "value ?self = 0" "min_val ?self = 0" "max_val ?self = 10"
    by (simp_all add: init_def)
  have answers: "peripheral (single_peripheral 54 ?bytes) (devno ?self) = Some ?bytes"
    by (simp add: init_def single_peripheral_def)
  have run: "position st = (fst (position st), snd (position st))" for st
    by simp
  from two_reads_scenario [OF dev start answers run run]
  show ?thesis by simp
qed

section \<open>What a call leaves alone\<close>

text \<open>
  C9. When \<^verbatim>\<open>i2c_write\<close> or \<^verbatim>\<open>i2c_read\<close> raises because \<open>devno\<close> is 0, the driver object
  after the call is the object before it: \<open>value\<close>, \<open>min_val\<close>, \<open>max_val\<close>, \<open>devno\<close>, the
  two pins and the frequency are all unchanged.
\<close>

theorem unset_device_error_is_atomic:
  assumes "devno self = 0"
  shows "fst (snd (i2c_write cdata (self, w))) = self \<and>
         fst (snd (i2c_read cdata dsize (self, w))) = self"
  using assms by (simp add: i2c_write_unset i2c_read_unset)

theorem unset_device_error_is_atomic_witness:
  "fst (snd (i2c_write [0x11, 0x40]
     ((init 16 17 400000 3 10 0)\<lparr>value := 7\<rparr>, single_peripheral 54 (sconst 0)))) =
     \<lparr>pin_num_sda = 16, pin_num_scl = 17, freq = 400000,
      min_val = 3, max_val = 10, value = 7, devno = 0\<rparr> \<and>
   fst (snd (i2c_read [0x11, 0x40] 4
     ((init 16 17 400000 3 10 0)\<lparr>value := 7\<rparr>, single_peripheral 54 (sconst 0)))) =
     \<lparr>pin_num_sda = 16, pin_num_scl = 17, freq = 400000,
      min_val = 3, max_val = 10, value = 7, devno = 0\<rparr>"
proof -
  have unset: "devno ((init 16 17 400000 3 10 0)\<lparr>value := 7\<rparr>) = 0"
    by (simp add: init_def)
  from unset_device_error_is_atomic [OF unset]
  show ?thesis
    by (simp add: init_def)
qed

text \<open>The transactions never assign to an attribute of the driver, whether they return
  or raise.\<close>

lemma i2c_write_self: "fst (snd (i2c_write cdata (self, w))) = self"
  by (simp add: i2c_write_def writeto_def Let_def split: option.split)

lemma i2c_read_self: "fst (snd (i2c_read cdata dsize (self, w))) = self"
proof (cases "i2c_write cdata (self, w)")
  case (fields r self' w')
  with i2c_write_self [of cdata self w] have "self' = self"
    by simp
  with fields show ?thesis
    by (simp add: i2c_read_def readfrom_into_def Let_def split: sum.split option.split)
qed

text \<open>
  C10. Whatever the state and the reply, and whether it returns or raises, \<^verbatim>\<open>button()\<close>
  leaves the driver object as it was: \<open>value\<close>, \<open>min_val\<close>, \<open>max_val\<close> and \<open>devno\<close> (and the
  pins and the frequency) are the same before and after. Of the other operations,
  \<^verbatim>\<open>i2c_write\<close>, \<^verbatim>\<open>i2c_read\<close> and \<^verbatim>\<open>set_device\<close> do not change \<open>value\<close> either.
\<close>

theorem button_keeps_driver_state:
  "fst (snd (button (self, w))) = self \<and>
   value (fst (snd (i2c_write cdata (self, w)))) = value self \<and>
   value (fst (snd (i2c_read cdata dsize (self, w)))) = value self \<and>
   value (fst (set_device dev (self, w))) = value self"
proof -
  obtain r self' w' where run: "i2c_read [CMD_READ_BUTTONS, CMD_READ_NUMBER] 4 (self, w) = (r, (self', w'))"
    by (metis prod.collapse)
  with i2c_read_self [of "[CMD_READ_BUTTONS, CMD_READ_NUMBER]" 4 self w] have "self' = self"
    by simp
  with run have "fst (snd (button (self, w))) = self"
    by (simp add: button_def Let_def split: sum.split list.split)
  then show ?thesis
    by (simp add: i2c_write_self i2c_read_self set_device_def)
qed

end
